theory Spec2Isabelle
  imports Complex_Main
begin

section \<open>The MQTT fan of homeassistant/components/mqtt/fan.py\<close>

text \<open>
  A shallow embedding of \<^verbatim>\<open>MqttFan\<close>: the validated configuration is a record, the
  entity built by \<^verbatim>\<open>_setup_from_config\<close> is a record, the mutable attributes, the
  messages handed to the transport and the state-change notifications form an explicit
  world that every handler and command takes and returns. An exception is a value:
  a command returns \<open>Some error\<close> together with the world as it stood when the exception
  left the coroutine.
\<close>

subsection \<open>Data\<close>

datatype error =
  ValueError string
  | NotValidPresetModeError string
  | TransportFailure

text \<open>The keys of the dictionaries \<^verbatim>\<open>_topic\<close>, \<^verbatim>\<open>_payload\<close>, \<^verbatim>\<open>_command_templates\<close> and
  \<^verbatim>\<open>_value_templates\<close>.\<close>

datatype topic_key =
  CONF_STATE_TOPIC
  | CONF_COMMAND_TOPIC
  | CONF_PERCENTAGE_STATE_TOPIC
  | CONF_PERCENTAGE_COMMAND_TOPIC
  | CONF_PRESET_MODE_STATE_TOPIC
  | CONF_PRESET_MODE_COMMAND_TOPIC
  | CONF_OSCILLATION_STATE_TOPIC
  | CONF_OSCILLATION_COMMAND_TOPIC

datatype payload_key =
  STATE_ON
  | STATE_OFF
  | OSCILLATE_ON_PAYLOAD
  | OSCILLATE_OFF_PAYLOAD
  | PERCENTAGE_RESET
  | PRESET_MODE_RESET

datatype template_key = CONF_STATE | ATTR_PERCENTAGE | ATTR_PRESET_MODE | ATTR_OSCILLATING

text \<open>What a command hands to the transport: a payload literal (a string) or the
  device-native speed (an integer), before and after the command template.\<close>

datatype publish_payload = PStr string | PInt int

text \<open>The configuration after the schema: an optional key is \<open>None\<close> when absent.\<close>

record config =
  conf_speed_range_min :: int
  conf_speed_range_max :: int
  conf_state_topic :: "string option"
  conf_command_topic :: "string option"
  conf_percentage_state_topic :: "string option"
  conf_percentage_command_topic :: "string option"
  conf_preset_mode_state_topic :: "string option"
  conf_preset_mode_command_topic :: "string option"
  conf_oscillation_state_topic :: "string option"
  conf_oscillation_command_topic :: "string option"
  conf_payload_on :: string
  conf_payload_off :: string
  conf_payload_oscillation_on :: string
  conf_payload_oscillation_off :: string
  conf_payload_reset_percentage :: string
  conf_payload_reset_preset_mode :: string
  conf_preset_modes :: "string list"
  conf_optimistic :: bool
  conf_qos :: nat
  conf_retain :: bool
  conf_encoding :: string

text \<open>The attributes \<^verbatim>\<open>_setup_from_config\<close> assigns. The speed count and the supported
  feature bits are left out: they are built from \<^verbatim>\<open>int_states_in_range\<close> and
  \<^verbatim>\<open>FanEntityFeature\<close>, and no handler or command reads them.\<close>

record entity =
  ent_config :: config
  speed_range :: "int \<times> int"
  topic :: "topic_key \<Rightarrow> string option"
  payload :: "payload_key \<Rightarrow> string"
  feature_percentage :: bool
  feature_preset_mode :: bool
  attr_preset_modes :: "string list"
  optimistic :: bool
  optimistic_oscillation :: bool
  optimistic_percentage :: bool
  optimistic_preset_mode :: bool

text \<open>The collaborators the module imports and calls but does not define: the rendering of
  command and value templates, the transport (does a publish of this payload on this topic
  succeed), the constant \<^verbatim>\<open>PAYLOAD_NONE\<close>, and the two range helpers of
  \<^verbatim>\<open>homeassistant.util.percentage\<close>. The result of \<^verbatim>\<open>percentage_to_ranged_value\<close> is a
  Python number that \<^verbatim>\<open>math.ceil\<close> rounds up; it is a rational here.\<close>

record env =
  render_command :: "template_key \<Rightarrow> publish_payload \<Rightarrow> publish_payload"
  render_value :: "template_key \<Rightarrow> string \<Rightarrow> string"
  transport :: "string option \<Rightarrow> publish_payload \<Rightarrow> bool"
  PAYLOAD_NONE :: string
  ranged_value_to_percentage :: "int \<times> int \<Rightarrow> int \<Rightarrow> int"
  percentage_to_ranged_value :: "int \<times> int \<Rightarrow> int \<Rightarrow> rat"

record fan_state =
  attr_is_on :: "bool option"
  attr_percentage :: "int option"
  attr_preset_mode :: "string option"
  attr_oscillating :: "bool option"

text \<open>A notification to the host: queued through \<^verbatim>\<open>write_state_request\<close> (the handlers) or
  written at once by \<^verbatim>\<open>async_write_ha_state\<close> (the commands and the preset reset). Both
  belong to the host, outside the module; each call is recorded as one notification.\<close>

datatype notice = WriteStateRequest | WriteHaState

datatype log_entry = LogDebug | LogWarning

record message =
  msg_topic :: "string option"
  msg_payload :: publish_payload
  msg_qos :: nat
  msg_retain :: bool
  msg_encoding :: string

record world =
  attrs :: fan_state
  published :: "message list"
  notices :: "notice list"
  logged :: "log_entry list"

subsection \<open>Configuration\<close>


definition valid_preset_mode_configuration :: "config \<Rightarrow> error + config" where
  "valid_preset_mode_configuration c =
     (if conf_payload_reset_preset_mode c \<in> set (conf_preset_modes c)
        then Inl (ValueError ''preset_modes must not contain payload_reset_preset_mode'')
      else Inr c)"

definition setup_from_config :: "config \<Rightarrow> entity" where
  "setup_from_config c =
     (let tp = (\<lambda>k. case k of
                  CONF_STATE_TOPIC \<Rightarrow> conf_state_topic c
                | CONF_COMMAND_TOPIC \<Rightarrow> conf_command_topic c
                | CONF_PERCENTAGE_STATE_TOPIC \<Rightarrow> conf_percentage_state_topic c
                | CONF_PERCENTAGE_COMMAND_TOPIC \<Rightarrow> conf_percentage_command_topic c
                | CONF_PRESET_MODE_STATE_TOPIC \<Rightarrow> conf_preset_mode_state_topic c
                | CONF_PRESET_MODE_COMMAND_TOPIC \<Rightarrow> conf_preset_mode_command_topic c
                | CONF_OSCILLATION_STATE_TOPIC \<Rightarrow> conf_oscillation_state_topic c
                | CONF_OSCILLATION_COMMAND_TOPIC \<Rightarrow> conf_oscillation_command_topic c);
          pl = (\<lambda>k. case k of
                  STATE_ON \<Rightarrow> conf_payload_on c
                | STATE_OFF \<Rightarrow> conf_payload_off c
                | OSCILLATE_ON_PAYLOAD \<Rightarrow> conf_payload_oscillation_on c
                | OSCILLATE_OFF_PAYLOAD \<Rightarrow> conf_payload_oscillation_off c
                | PERCENTAGE_RESET \<Rightarrow> conf_payload_reset_percentage c
                | PRESET_MODE_RESET \<Rightarrow> conf_payload_reset_preset_mode c);
          fpm = (conf_preset_mode_command_topic c \<noteq> None);
          opt = conf_optimistic c
      in \<lparr> ent_config = c,
           speed_range = (conf_speed_range_min c, conf_speed_range_max c),
           topic = tp,
           payload = pl,
           feature_percentage = (conf_percentage_command_topic c \<noteq> None),
           feature_preset_mode = fpm,
           attr_preset_modes = (if fpm then conf_preset_modes c else []),
           optimistic = (opt \<or> tp CONF_STATE_TOPIC = None),
           optimistic_oscillation = (opt \<or> tp CONF_OSCILLATION_STATE_TOPIC = None),
           optimistic_percentage = (opt \<or> tp CONF_PERCENTAGE_STATE_TOPIC = None),
           optimistic_preset_mode = (opt \<or> tp CONF_PRESET_MODE_STATE_TOPIC = None) \<rparr>)"

text \<open>The property \<^verbatim>\<open>assumed_state\<close>.\<close>

definition assumed_state :: "entity \<Rightarrow> bool" where
  "assumed_state e = optimistic e"

subsection \<open>Python's \<^verbatim>\<open>int\<close> on a string\<close>

text \<open>\<^verbatim>\<open>int(s)\<close> in base ten, on the ASCII part of its grammar: surrounding whitespace is
  stripped, one sign may lead, and the digits may be grouped by single underscores. Every
  other string raises \<^verbatim>\<open>ValueError\<close>, which is \<open>None\<close> here. Digits and spaces
  outside ASCII and the interpreter's limit on the number of digits are not modelled.\<close>

definition is_space :: "char \<Rightarrow> bool" where
  "is_space c = (c \<in> set [CHR '' '', CHR 0x09, CHR 0x0A, CHR 0x0B, CHR 0x0C, CHR 0x0D,
                           CHR 0x1C, CHR 0x1D, CHR 0x1E, CHR 0x1F])"

definition py_strip :: "string \<Rightarrow> string" where
  "py_strip s = rev (dropWhile is_space (rev (dropWhile is_space s)))"

definition is_digit :: "char \<Rightarrow> bool" where
  "is_digit c = ((48::nat) \<le> of_char c \<and> (of_char c :: nat) \<le> 57)"

definition digit_value :: "char \<Rightarrow> nat" where
  "digit_value c = of_char c - 48"

fun parse_digits :: "nat \<Rightarrow> bool \<Rightarrow> string \<Rightarrow> nat option" where
  "parse_digits acc after_digit [] = (if after_digit then Some acc else None)"
| "parse_digits acc after_digit (c # cs) =
     (if is_digit c then parse_digits (acc * 10 + digit_value c) True cs
      else if c = CHR ''_'' \<and> after_digit then parse_digits acc False cs
      else None)"

definition py_int :: "string \<Rightarrow> int option" where
  "py_int s =
     (case py_strip s of
        [] \<Rightarrow> None
      | c # cs \<Rightarrow>
          if c = CHR ''-'' then map_option (\<lambda>n. - int n) (parse_digits 0 False cs)
          else if c = CHR ''+'' then map_option int (parse_digits 0 False cs)
          else map_option int (parse_digits 0 False (c # cs)))"

subsection \<open>Inbound handlers\<close>

definition write_state_request :: "world \<Rightarrow> world" where
  "write_state_request w = w\<lparr>notices := notices w @ [WriteStateRequest]\<rparr>"

definition async_write_ha_state :: "world \<Rightarrow> world" where
  "async_write_ha_state w = w\<lparr>notices := notices w @ [WriteHaState]\<rparr>"

definition log_msg :: "log_entry \<Rightarrow> world \<Rightarrow> world" where
  "log_msg l w = w\<lparr>logged := logged w @ [l]\<rparr>"

definition set_is_on :: "bool option \<Rightarrow> world \<Rightarrow> world" where
  "set_is_on v w = w\<lparr>attrs := (attrs w)\<lparr>attr_is_on := v\<rparr>\<rparr>"

definition set_percentage :: "int option \<Rightarrow> world \<Rightarrow> world" where
  "set_percentage v w = w\<lparr>attrs := (attrs w)\<lparr>attr_percentage := v\<rparr>\<rparr>"

definition set_preset_mode :: "string option \<Rightarrow> world \<Rightarrow> world" where
  "set_preset_mode v w = w\<lparr>attrs := (attrs w)\<lparr>attr_preset_mode := v\<rparr>\<rparr>"

definition set_oscillating :: "bool option \<Rightarrow> world \<Rightarrow> world" where
  "set_oscillating v w = w\<lparr>attrs := (attrs w)\<lparr>attr_oscillating := v\<rparr>\<rparr>"

text \<open>\<^verbatim>\<open>state_received\<close>: an empty rendered payload returns early; after that the request to
  write the state is made whether or not one of the three literals matched.\<close>

definition state_received :: "env \<Rightarrow> entity \<Rightarrow> string \<Rightarrow> world \<Rightarrow> world" where
  "state_received ev e raw w =
     (let rendered = render_value ev CONF_STATE raw in
      if rendered = [] then log_msg LogDebug w
      else write_state_request
        (if rendered = payload e STATE_ON then set_is_on (Some True) w
         else if rendered = payload e STATE_OFF then set_is_on (Some False) w
         else if rendered = PAYLOAD_NONE ev then set_is_on None w
         else w))"

definition percentage_received :: "env \<Rightarrow> entity \<Rightarrow> string \<Rightarrow> world \<Rightarrow> world" where
  "percentage_received ev e raw w =
     (let rendered = render_value ev ATTR_PERCENTAGE raw in
      if rendered = [] then log_msg LogDebug w
      else if rendered = payload e PERCENTAGE_RESET
        then write_state_request (set_percentage None w)
      else case py_int rendered of
        None \<Rightarrow> log_msg LogWarning w
      | Some v \<Rightarrow>
          (let percentage = ranged_value_to_percentage ev (speed_range e) v in
           if percentage < 0 \<or> percentage > 100 then log_msg LogWarning w
           else write_state_request (set_percentage (Some percentage) w)))"

definition preset_mode_received :: "env \<Rightarrow> entity \<Rightarrow> string \<Rightarrow> world \<Rightarrow> world" where
  "preset_mode_received ev e raw w =
     (let preset_mode = render_value ev ATTR_PRESET_MODE raw in
      if preset_mode = payload e PRESET_MODE_RESET
        then async_write_ha_state (set_preset_mode None w)
      else if preset_mode = [] then log_msg LogDebug w
      else if attr_preset_modes e = [] \<or> preset_mode \<notin> set (attr_preset_modes e)
        then log_msg LogWarning w
      else write_state_request (set_preset_mode (Some preset_mode) w))"

definition oscillation_received :: "env \<Rightarrow> entity \<Rightarrow> string \<Rightarrow> world \<Rightarrow> world" where
  "oscillation_received ev e raw w =
     (let rendered = render_value ev ATTR_OSCILLATING raw in
      if rendered = [] then log_msg LogDebug w
      else write_state_request
        (if rendered = payload e OSCILLATE_ON_PAYLOAD then set_oscillating (Some True) w
         else if rendered = payload e OSCILLATE_OFF_PAYLOAD then set_oscillating (Some False) w
         else w))"

text \<open>\<^verbatim>\<open>_prepare_subscribe_topics\<close>: the state topics that are configured get a handler, and
  three of the four attributes get a default when their topic is subscribed.\<close>

definition prepare_subscribe_topics :: "entity \<Rightarrow> world \<Rightarrow> topic_key list \<times> world" where
  "prepare_subscribe_topics e w =
     (let sub = (\<lambda>k. if topic e k \<noteq> None then [k] else []);
          w1 = (if topic e CONF_PERCENTAGE_STATE_TOPIC \<noteq> None then set_percentage None w else w);
          w2 = (if topic e CONF_PRESET_MODE_STATE_TOPIC \<noteq> None then set_preset_mode None w1 else w1);
          w3 = (if topic e CONF_OSCILLATION_STATE_TOPIC \<noteq> None
                then set_oscillating (Some False) w2 else w2)
      in (sub CONF_STATE_TOPIC @ sub CONF_PERCENTAGE_STATE_TOPIC
            @ sub CONF_PRESET_MODE_STATE_TOPIC @ sub CONF_OSCILLATION_STATE_TOPIC, w3))"

subsection \<open>Commands\<close>

text \<open>Modelled from the spec: \<^verbatim>\<open>async_publish\<close> is a method the class inherits from the
  \<^verbatim>\<open>MqttEntity\<close> mixin and is not among the sources. The spec: a publish takes a topic, a
  payload, the QoS and the retain flag, and may fail; a failure surfaces to the caller of
  the command and is not retried. Whether a publish succeeds is the transport of the
  environment; a publish that succeeds is recorded, with the entity's QoS, retain flag and
  encoding as the commands pass them.\<close>

definition mk_message :: "entity \<Rightarrow> string option \<Rightarrow> publish_payload \<Rightarrow> message" where
  "mk_message e t p =
     \<lparr> msg_topic = t, msg_payload = p, msg_qos = conf_qos (ent_config e),
       msg_retain = conf_retain (ent_config e), msg_encoding = conf_encoding (ent_config e) \<rparr>"

definition async_publish ::
  "env \<Rightarrow> entity \<Rightarrow> string option \<Rightarrow> publish_payload \<Rightarrow> world \<Rightarrow> error option \<times> world" where
  "async_publish ev e t p w =
     (if transport ev t p then (None, w\<lparr>published := published w @ [mk_message e t p]\<rparr>)
      else (Some TransportFailure, w))"

text \<open>Sequencing: the next statement runs only if the previous one did not raise.\<close>

definition and_then ::
  "error option \<times> world \<Rightarrow> (world \<Rightarrow> error option \<times> world) \<Rightarrow> error option \<times> world" where
  "and_then r f = (case r of (Some err, w) \<Rightarrow> (Some err, w) | (None, w) \<Rightarrow> f w)"

text \<open>Modelled from the spec: \<^verbatim>\<open>_valid_preset_mode_or_raise\<close>, a method the class inherits
  from \<^verbatim>\<open>FanEntity\<close> (homeassistant/components/fan), is called by
  \<^verbatim>\<open>async_set_preset_mode\<close> and is not among the sources. The spec: the operation fails
  with InvalidPresetError if the mode is not in the configured preset modes.\<close>

definition valid_preset_mode_or_raise :: "entity \<Rightarrow> string \<Rightarrow> error option" where
  "valid_preset_mode_or_raise e preset_mode =
     (if preset_mode \<in> set (attr_preset_modes e) then None
      else Some (NotValidPresetModeError preset_mode))"

definition async_set_percentage :: "env \<Rightarrow> entity \<Rightarrow> int \<Rightarrow> world \<Rightarrow> error option \<times> world" where
  "async_set_percentage ev e percentage w =
     (let percentage_payload = \<lceil>percentage_to_ranged_value ev (speed_range e) percentage\<rceil>;
          mqtt_payload = render_command ev ATTR_PERCENTAGE (PInt percentage_payload)
      in and_then (async_publish ev e (topic e CONF_PERCENTAGE_COMMAND_TOPIC) mqtt_payload w)
           (\<lambda>w1. if optimistic_percentage e
                  then (None, async_write_ha_state (set_percentage (Some percentage) w1))
                  else (None, w1)))"

definition async_set_preset_mode ::
  "env \<Rightarrow> entity \<Rightarrow> string \<Rightarrow> world \<Rightarrow> error option \<times> world" where
  "async_set_preset_mode ev e preset_mode w =
     (case valid_preset_mode_or_raise e preset_mode of
        Some err \<Rightarrow> (Some err, w)
      | None \<Rightarrow>
          (let mqtt_payload = render_command ev ATTR_PRESET_MODE (PStr preset_mode)
           in and_then (async_publish ev e (topic e CONF_PRESET_MODE_COMMAND_TOPIC) mqtt_payload w)
                (\<lambda>w1. if optimistic_preset_mode e
                       then (None, async_write_ha_state (set_preset_mode (Some preset_mode) w1))
                       else (None, w1))))"

text \<open>Python's truth value of an optional integer and of an optional string.\<close>

definition truthy_int :: "int option \<Rightarrow> bool" where
  "truthy_int p = (case p of None \<Rightarrow> False | Some n \<Rightarrow> n \<noteq> 0)"

definition truthy_str :: "string option \<Rightarrow> bool" where
  "truthy_str m = (case m of None \<Rightarrow> False | Some s \<Rightarrow> s \<noteq> [])"

definition async_turn_on ::
  "env \<Rightarrow> entity \<Rightarrow> int option \<Rightarrow> string option \<Rightarrow> world \<Rightarrow> error option \<times> world" where
  "async_turn_on ev e percentage preset_mode w =
     (let mqtt_payload = render_command ev CONF_STATE (PStr (payload e STATE_ON)) in
      and_then (async_publish ev e (topic e CONF_COMMAND_TOPIC) mqtt_payload w) (\<lambda>w1.
      and_then (if truthy_int percentage then async_set_percentage ev e (the percentage) w1
                else (None, w1)) (\<lambda>w2.
      and_then (if truthy_str preset_mode then async_set_preset_mode ev e (the preset_mode) w2
                else (None, w2)) (\<lambda>w3.
      if optimistic e then (None, async_write_ha_state (set_is_on (Some True) w3))
      else (None, w3)))))"

definition async_turn_off :: "env \<Rightarrow> entity \<Rightarrow> world \<Rightarrow> error option \<times> world" where
  "async_turn_off ev e w =
     (let mqtt_payload = render_command ev CONF_STATE (PStr (payload e STATE_OFF)) in
      and_then (async_publish ev e (topic e CONF_COMMAND_TOPIC) mqtt_payload w)
        (\<lambda>w1. if optimistic e then (None, async_write_ha_state (set_is_on (Some False) w1))
               else (None, w1)))"

definition async_oscillate :: "env \<Rightarrow> entity \<Rightarrow> bool \<Rightarrow> world \<Rightarrow> error option \<times> world" where
  "async_oscillate ev e oscillating w =
     (let mqtt_payload =
            (if oscillating
             then render_command ev ATTR_OSCILLATING (PStr (payload e OSCILLATE_ON_PAYLOAD))
             else render_command ev ATTR_OSCILLATING (PStr (payload e OSCILLATE_OFF_PAYLOAD)))
      in and_then (async_publish ev e (topic e CONF_OSCILLATION_COMMAND_TOPIC) mqtt_payload w)
           (\<lambda>w1. if optimistic_oscillation e
                  then (None, async_write_ha_state (set_oscillating (Some oscillating) w1))
                  else (None, w1)))"

subsection \<open>The range helpers, from the specification\<close>

text \<open>Modelled from the spec: \<^verbatim>\<open>percentage_to_ranged_value\<close> of
  \<^verbatim>\<open>homeassistant.util.percentage\<close> is imported by the module and is not among the sources.
  The spec calls the remap a linear mapping between the percentage scale and the device's
  integer range, and writes it out once, for 42 on the range (1, 100), as
  \<^verbatim>\<open>42/100*(100-1)+1\<close> before the ceiling.\<close>

definition spec_percentage_to_ranged_value :: "int \<times> int \<Rightarrow> int \<Rightarrow> rat" where
  "spec_percentage_to_ranged_value r percentage =
     of_int percentage / 100 * of_int (snd r - fst r) + of_int (fst r)"

text \<open>Modelled from the spec: \<^verbatim>\<open>ranged_value_to_percentage\<close> of the same module, not among
  the sources either. The spec gives no formula for it: it is the same linear mapping
  read from the device's range into the percentage scale, and since the percentage is an
  integer the quotient is rounded down.\<close>

definition spec_ranged_value_to_percentage :: "int \<times> int \<Rightarrow> int \<Rightarrow> int" where
  "spec_ranged_value_to_percentage r v = ((v - fst r) * 100) div (snd r - fst r)"

subsection \<open>The optimism rule, in the specification's words\<close>

datatype channel = Power | Percentage | PresetMode | Oscillation



text \<open>The flag the entity holds for a channel.\<close>

definition optimistic_flag :: "entity \<Rightarrow> channel \<Rightarrow> bool" where
  "optimistic_flag e ch =
     (case ch of
        Power \<Rightarrow> optimistic e
      | Percentage \<Rightarrow> optimistic_percentage e
      | PresetMode \<Rightarrow> optimistic_preset_mode e
      | Oscillation \<Rightarrow> optimistic_oscillation e)"

subsection \<open>A concrete fan\<close>

text \<open>The defaults of the schema, a power and an oscillation state topic, no percentage and
  no preset state topic, and two preset modes.\<close>

definition example_config :: config where
  "example_config =
     \<lparr> conf_speed_range_min = 1, conf_speed_range_max = 100,
       conf_state_topic = Some ''fan/state'',
       conf_command_topic = Some ''fan/set'',
       conf_percentage_state_topic = None,
       conf_percentage_command_topic = Some ''fan/pct/set'',
       conf_preset_mode_state_topic = None,
       conf_preset_mode_command_topic = Some ''fan/preset/set'',
       conf_oscillation_state_topic = Some ''fan/osc'',
       conf_oscillation_command_topic = Some ''fan/osc/set'',
       conf_payload_on = ''ON'', conf_payload_off = ''OFF'',
       conf_payload_oscillation_on = ''oscillate_on'',
       conf_payload_oscillation_off = ''oscillate_off'',
       conf_payload_reset_percentage = ''None'',
       conf_payload_reset_preset_mode = ''None'',
       conf_preset_modes = [''eco'', ''auto''],
       conf_optimistic = False, conf_qos = 0, conf_retain = False,
       conf_encoding = ''utf-8'' \<rparr>"

text \<open>No templates (a value renders as itself), a transport that accepts every publish, and
  the range helpers as modelled above.\<close>

definition example_env :: env where
  "example_env =
     \<lparr> render_command = (\<lambda>k p. p), render_value = (\<lambda>k s. s),
       transport = (\<lambda>t p. True), PAYLOAD_NONE = ''None'',
       ranged_value_to_percentage = spec_ranged_value_to_percentage,
       percentage_to_ranged_value = spec_percentage_to_ranged_value \<rparr>"

definition initial_world :: world where
  "initial_world =
     \<lparr> attrs = \<lparr> attr_is_on = None, attr_percentage = None, attr_preset_mode = None,
                 attr_oscillating = None \<rparr>,
       published = [], notices = [], logged = [] \<rparr>"

section \<open>Properties\<close>

subsection \<open>What the setup computes\<close>

lemma setup_optimistic_flags:
  "optimistic (setup_from_config c) = (conf_optimistic c \<or> conf_state_topic c = None)"
  "optimistic_percentage (setup_from_config c)
     = (conf_optimistic c \<or> conf_percentage_state_topic c = None)"
  "optimistic_preset_mode (setup_from_config c)
     = (conf_optimistic c \<or> conf_preset_mode_state_topic c = None)"
  "optimistic_oscillation (setup_from_config c)
     = (conf_optimistic c \<or> conf_oscillation_state_topic c = None)"
  by (simp_all add: setup_from_config_def Let_def)

lemma setup_topic:
  "topic (setup_from_config c) CONF_STATE_TOPIC = conf_state_topic c"
  "topic (setup_from_config c) CONF_COMMAND_TOPIC = conf_command_topic c"
  "topic (setup_from_config c) CONF_PERCENTAGE_STATE_TOPIC = conf_percentage_state_topic c"
  "topic (setup_from_config c) CONF_PERCENTAGE_COMMAND_TOPIC = conf_percentage_command_topic c"
  "topic (setup_from_config c) CONF_PRESET_MODE_STATE_TOPIC = conf_preset_mode_state_topic c"
  "topic (setup_from_config c) CONF_PRESET_MODE_COMMAND_TOPIC = conf_preset_mode_command_topic c"
  "topic (setup_from_config c) CONF_OSCILLATION_STATE_TOPIC = conf_oscillation_state_topic c"
  "topic (setup_from_config c) CONF_OSCILLATION_COMMAND_TOPIC = conf_oscillation_command_topic c"
  by (simp_all add: setup_from_config_def Let_def)

lemma setup_payload:
  "payload (setup_from_config c) STATE_ON = conf_payload_on c"
  "payload (setup_from_config c) STATE_OFF = conf_payload_off c"
  "payload (setup_from_config c) OSCILLATE_ON_PAYLOAD = conf_payload_oscillation_on c"
  "payload (setup_from_config c) OSCILLATE_OFF_PAYLOAD = conf_payload_oscillation_off c"
  "payload (setup_from_config c) PERCENTAGE_RESET = conf_payload_reset_percentage c"
  "payload (setup_from_config c) PRESET_MODE_RESET = conf_payload_reset_preset_mode c"
  by (simp_all add: setup_from_config_def Let_def)

lemma setup_misc:
  "speed_range (setup_from_config c) = (conf_speed_range_min c, conf_speed_range_max c)"
  "ent_config (setup_from_config c) = c"
  "attr_preset_modes (setup_from_config c)
     = (if conf_preset_mode_command_topic c \<noteq> None then conf_preset_modes c else [])"
  by (simp_all add: setup_from_config_def Let_def)

lemmas setup_simps = setup_optimistic_flags setup_topic setup_payload setup_misc

lemmas cmd_defs = async_turn_on_def async_turn_off_def async_set_percentage_def
  async_set_preset_mode_def async_oscillate_def and_then_def async_publish_def Let_def
  valid_preset_mode_or_raise_def

lemmas world_defs = set_is_on_def set_percentage_def set_preset_mode_def set_oscillating_def
  async_write_ha_state_def write_state_request_def log_msg_def

lemmas handler_defs = state_received_def percentage_received_def preset_mode_received_def
  oscillation_received_def Let_def


lemmas example_defs = example_config_def example_env_def initial_world_def



subsection \<open>The speed range check\<close>




subsection \<open>The assumed state\<close>

text \<open>
  C7, as stated, fails: \<^verbatim>\<open>assumed_state\<close> returns the power channel's flag alone. The
  example fan has a power state topic and no percentage state topic: its percentage
  channel is optimistic and its assumed state is false.
\<close>

theorem assumed_state_not_any_channel:
  "\<not> (assumed_state (setup_from_config example_config) \<longleftrightarrow>
        (optimistic_flag (setup_from_config example_config) Power
         \<or> optimistic_flag (setup_from_config example_config) Percentage
         \<or> optimistic_flag (setup_from_config example_config) PresetMode
         \<or> optimistic_flag (setup_from_config example_config) Oscillation))"
  by (simp add: assumed_state_def optimistic_flag_def setup_simps example_config_def)

text \<open>
  C7, amended: the assumed state is true if and only if the power channel is optimistic,
  that is, the global optimistic flag is set or the power state topic is not configured.
\<close>

theorem assumed_state_is_power_optimism:
  "assumed_state (setup_from_config c) = (conf_optimistic c \<or> conf_state_topic c = None)"
  by (simp add: assumed_state_def setup_simps)

theorem assumed_state_is_power_optimism_witness:
  "assumed_state (setup_from_config (example_config\<lparr>conf_state_topic := None\<rparr>))
   \<and> \<not> assumed_state (setup_from_config example_config)"
  using assumed_state_is_power_optimism [of "example_config\<lparr>conf_state_topic := None\<rparr>"]
    assumed_state_is_power_optimism [of example_config]
  by (simp add: example_config_def)

subsection \<open>An invalid preset mode\<close>

text \<open>
  C4: for every mode that is not in the configured list of preset modes,
  \<^verbatim>\<open>async_set_preset_mode\<close> raises the invalid-preset error and returns the world as it was:
  nothing is published, no attribute changes, nothing is notified.
\<close>

theorem set_preset_mode_invalid:
  "mode \<notin> set (conf_preset_modes c) \<Longrightarrow>
   async_set_preset_mode ev (setup_from_config c) mode w
     = (Some (NotValidPresetModeError mode), w)"
  by (simp add: async_set_preset_mode_def valid_preset_mode_or_raise_def setup_simps)

theorem set_preset_mode_invalid_witness:
  "''turbo'' \<notin> set (conf_preset_modes example_config) \<and>
   async_set_preset_mode example_env (setup_from_config example_config) ''turbo'' initial_world
     = (Some (NotValidPresetModeError ''turbo''), initial_world)"
  using set_preset_mode_invalid [of "''turbo''" example_config example_env initial_world]
  by (simp add: example_config_def)

subsection \<open>Commands and the optimism rule\<close>



subsection \<open>Inbound messages and notifications\<close>




subsection \<open>Rejected percentage payloads\<close>




subsection \<open>Reset literals\<close>

text \<open>
  C6, as stated, fails when the percentage reset literal is configured as the empty string:
  the percentage handler returns on an empty payload before it compares with the reset
  literal, so the payload that equals the literal changes nothing and notifies nobody.
\<close>

theorem empty_percentage_reset_literal_ignored:
  "attr_percentage (attrs (percentage_received example_env
        (setup_from_config (example_config\<lparr>conf_payload_reset_percentage := []\<rparr>))
        [] (set_percentage (Some 50) initial_world))) = Some 50
   \<and> notices (percentage_received example_env
        (setup_from_config (example_config\<lparr>conf_payload_reset_percentage := []\<rparr>))
        [] (set_percentage (Some 50) initial_world)) = []"
  by (simp add: handler_defs world_defs setup_simps example_defs)

text \<open>
  C6, amended: whatever the attributes were before, a rendered payload equal to a non-empty
  percentage reset literal sets the percentage to unknown and notifies once, and a
  rendered payload equal to the preset reset literal (empty or not) sets the preset mode
  to unknown and notifies once.
\<close>

theorem reset_literals_reset:
  "(render_value ev ATTR_PERCENTAGE raw = payload e PERCENTAGE_RESET
      \<and> payload e PERCENTAGE_RESET \<noteq> [] \<longrightarrow>
      attr_percentage (attrs (percentage_received ev e raw w)) = None
      \<and> notices (percentage_received ev e raw w) = notices w @ [WriteStateRequest])
   \<and> (render_value ev ATTR_PRESET_MODE raw' = payload e PRESET_MODE_RESET \<longrightarrow>
      attr_preset_mode (attrs (preset_mode_received ev e raw' w)) = None
      \<and> notices (preset_mode_received ev e raw' w) = notices w @ [WriteHaState])"
  by (simp add: handler_defs world_defs)

theorem reset_literals_reset_witness:
  "attr_percentage (attrs (percentage_received example_env (setup_from_config example_config)
        ''None'' (set_percentage (Some 50) initial_world))) = None
   \<and> attr_preset_mode (attrs (preset_mode_received example_env (setup_from_config example_config)
        ''None'' (set_preset_mode (Some ''eco'') initial_world))) = None
   \<and> notices (preset_mode_received example_env (setup_from_config example_config)
        ''None'' (set_preset_mode (Some ''eco'') initial_world)) = [WriteHaState]"
  using reset_literals_reset [where ev = example_env and raw = "''None''" and raw' = "''None''"
          and e = "setup_from_config example_config"
          and w = "set_percentage (Some 50) initial_world"]
        reset_literals_reset [where ev = example_env and raw = "''None''" and raw' = "''None''"
          and e = "setup_from_config example_config"
          and w = "set_preset_mode (Some ''eco'') initial_world"]
  by (simp add: setup_simps example_defs world_defs)

subsection \<open>Setting a percentage of 42 on the default range\<close>




subsection \<open>The remap round trip\<close>



subsection \<open>Turning on with a percentage or a preset mode\<close>

text \<open>
  C10: turning on with a percentage that is absent or zero behaves exactly as turning on
  without a percentage, and with a preset mode that is absent or empty exactly as without
  a preset mode; and when every publish succeeds (and a non-empty mode is a configured
  one), what is published is the on literal, followed by the percentage command if and
  only if the percentage is truthy, followed by the preset command if and only if the
  preset mode is truthy.
\<close>

theorem turn_on_forwards_truthy_only:
  "(\<not> truthy_int p \<longrightarrow> async_turn_on ev e p m w = async_turn_on ev e None m w)
   \<and> (\<not> truthy_str m \<longrightarrow> async_turn_on ev e p m w = async_turn_on ev e p None w)
   \<and> ((\<forall>t x. transport ev t x) \<and> (truthy_str m \<longrightarrow> the m \<in> set (attr_preset_modes e)) \<longrightarrow>
       fst (async_turn_on ev e p m w) = None \<and>
       published (snd (async_turn_on ev e p m w)) = published w
         @ [mk_message e (topic e CONF_COMMAND_TOPIC)
              (render_command ev CONF_STATE (PStr (payload e STATE_ON)))]
         @ (if truthy_int p
            then [mk_message e (topic e CONF_PERCENTAGE_COMMAND_TOPIC)
                    (render_command ev ATTR_PERCENTAGE
                       (PInt \<lceil>percentage_to_ranged_value ev (speed_range e) (the p)\<rceil>))]
            else [])
         @ (if truthy_str m
            then [mk_message e (topic e CONF_PRESET_MODE_COMMAND_TOPIC)
                    (render_command ev ATTR_PRESET_MODE (PStr (the m)))]
            else []))"
  by (simp add: cmd_defs world_defs truthy_int_def truthy_str_def)

theorem turn_on_forwards_truthy_only_witness:
  "async_turn_on example_env (setup_from_config example_config) (Some 0) (Some []) initial_world
     = async_turn_on example_env (setup_from_config example_config) None None initial_world
   \<and> map msg_topic (published (snd (async_turn_on example_env (setup_from_config example_config)
        None None initial_world))) = [Some ''fan/set'']
   \<and> map msg_topic (published (snd (async_turn_on example_env (setup_from_config example_config)
        (Some 30) (Some ''eco'') initial_world)))
      = [Some ''fan/set'', Some ''fan/pct/set'', Some ''fan/preset/set'']"
proof -
  let ?e = "setup_from_config example_config"
  have ok: "\<forall>t x. transport example_env t x"
    by (simp add: example_env_def)
  have eco: "''eco'' \<in> set (attr_preset_modes ?e)"
    by (simp add: setup_simps example_config_def)
  have "async_turn_on example_env ?e (Some 0) (Some []) initial_world
          = async_turn_on example_env ?e None (Some []) initial_world"
    using turn_on_forwards_truthy_only [of "Some 0" example_env ?e "Some []" initial_world]
    by (simp add: truthy_int_def)
  moreover have "async_turn_on example_env ?e None (Some []) initial_world
          = async_turn_on example_env ?e None None initial_world"
    using turn_on_forwards_truthy_only [of None example_env ?e "Some []" initial_world]
    by (simp add: truthy_str_def)
  moreover have "published (snd (async_turn_on example_env ?e None None initial_world))
          = [mk_message ?e (topic ?e CONF_COMMAND_TOPIC)
               (render_command example_env CONF_STATE (PStr (payload ?e STATE_ON)))]"
    using turn_on_forwards_truthy_only [of None example_env ?e None initial_world] ok
    by (simp add: truthy_int_def truthy_str_def initial_world_def)
  moreover have "published (snd (async_turn_on example_env ?e (Some 30) (Some ''eco'') initial_world))
          = [mk_message ?e (topic ?e CONF_COMMAND_TOPIC)
               (render_command example_env CONF_STATE (PStr (payload ?e STATE_ON))),
             mk_message ?e (topic ?e CONF_PERCENTAGE_COMMAND_TOPIC)
               (render_command example_env ATTR_PERCENTAGE
                  (PInt \<lceil>percentage_to_ranged_value example_env (speed_range ?e) 30\<rceil>)),
             mk_message ?e (topic ?e CONF_PRESET_MODE_COMMAND_TOPIC)
               (render_command example_env ATTR_PRESET_MODE (PStr ''eco''))]"
    using turn_on_forwards_truthy_only [of "Some 30" example_env ?e "Some ''eco''" initial_world]
      ok eco
    by (simp add: truthy_int_def truthy_str_def initial_world_def)
  ultimately show ?thesis
    by (simp add: mk_message_def setup_simps example_config_def)
qed

end
